theory Spec2Isabelle
  imports Complex_Main "HOL-Library.AList"
begin

section \<open>Dates, times and durations\<close>

text \<open>
  Python's \<^verbatim>\<open>date\<close> is modelled by its proleptic Gregorian ordinal
  (\<^verbatim>\<open>date.toordinal()\<close>: day 1 is 0001-01-01, the last day 9999-12-31 is 3652059).
  A naive \<^verbatim>\<open>datetime\<close> is the number of microseconds since the midnight that starts
  ordinal 0, a \<^verbatim>\<open>timedelta\<close> a number of microseconds. Comparison of two datetimes is
  comparison of these numbers.

  The tables hold \<^verbatim>\<open>start_time\<close> and \<^verbatim>\<open>end_time\<close> as the text of
  \<^verbatim>\<open>datetime.isoformat()\<close> and the queries compare that text. For the years 1 to 9999
  the text is made of fixed-width fields, most significant first, followed by a
  six-digit fraction only when the microsecond is not 0, so the order of the texts is the
  order of the datetimes; the model compares the datetimes.

  Hours are Python floats in the program. The model keeps their exact rational value: it
  says nothing about binary rounding.
\<close>

type_synonym date = int
type_synonym datetime = int
type_synonym timedelta = int

datatype error = IntegrityError | AttributeError | OverflowError | TypeError | KeyError

definition us_per_day :: int where
  "us_per_day = 86400000000"

definition min_ordinal :: date where
  "min_ordinal = 1"

definition max_ordinal :: date where
  "max_ordinal = 3652059"


text \<open>\<^verbatim>\<open>datetime.min.time()\<close> is 00:00:00 and \<^verbatim>\<open>datetime.max.time()\<close> is 23:59:59.999999.\<close>

definition time_min :: int where
  "time_min = 0"

definition time_max :: int where
  "time_max = 86399999999"

definition combine :: "date \<Rightarrow> int \<Rightarrow> datetime" where
  "combine d t = d * us_per_day + t"


text \<open>\<^verbatim>\<open>date.weekday()\<close> is \<^verbatim>\<open>(self.toordinal() + 6) % 7\<close>: Monday is 0, Sunday is 6.\<close>

definition weekday :: "date \<Rightarrow> int" where
  "weekday d = (d + 6) mod 7"

text \<open>\<^verbatim>\<open>date + timedelta(days=n)\<close> raises OverflowError outside 0001-01-01 .. 9999-12-31.\<close>

definition date_add_days :: "date \<Rightarrow> int \<Rightarrow> error + date" where
  "date_add_days d n =
     (let r = d + n in if min_ordinal \<le> r \<and> r \<le> max_ordinal then Inr r else Inl OverflowError)"

text \<open>\<^verbatim>\<open>timedelta.total_seconds()\<close>, exactly.\<close>

definition total_seconds :: "timedelta \<Rightarrow> rat" where
  "total_seconds td = of_int td / 1000000"

section \<open>models.py\<close>

record Project =
  p_id :: "int option"
  name :: string
  is_billed_hourly :: bool
  hour_rate :: "rat option"

record WorkEntry =
  e_id :: "int option"
  project_id :: int
  description :: string
  start_time :: "datetime option"
  end_time :: "datetime option"

text \<open>
  \<^verbatim>\<open>WorkEntry.duration\<close>: \<^verbatim>\<open>if self.start_time and self.end_time\<close>; a datetime is
  always truthy, so the test is presence.
\<close>

definition duration :: "WorkEntry \<Rightarrow> timedelta option" where
  "duration e =
     (case (start_time e, end_time e) of
        (Some s, Some t) \<Rightarrow> Some (t - s)
      | _ \<Rightarrow> None)"

text \<open>
  \<^verbatim>\<open>WorkEntry.duration_hours\<close>: \<^verbatim>\<open>if self.duration\<close> is a truth test, and
  \<^verbatim>\<open>timedelta(0)\<close> is falsy as \<^verbatim>\<open>None\<close> is.
\<close>

definition duration_hours :: "WorkEntry \<Rightarrow> rat option" where
  "duration_hours e =
     (case duration e of
        None \<Rightarrow> None
      | Some td \<Rightarrow> if td \<noteq> 0 then Some (total_seconds td / 3600) else None)"

section \<open>db.py: the two tables\<close>

text \<open>
  A row of \<^verbatim>\<open>projects (id INTEGER PRIMARY KEY AUTOINCREMENT, name TEXT NOT NULL UNIQUE,
  is_billed_hourly INTEGER DEFAULT 0, hour_rate REAL)\<close> and a row of
  \<^verbatim>\<open>work_entries (id INTEGER PRIMARY KEY AUTOINCREMENT, project_id INTEGER NOT NULL,
  description TEXT NOT NULL, start_time TEXT NOT NULL, end_time TEXT)\<close>. The foreign key is
  declared and never enforced (sqlite3 leaves \<^verbatim>\<open>PRAGMA foreign_keys\<close> off). A table is
  the list of its rows in rowid order; the AUTOINCREMENT counter of each table is kept
  beside it. The flag is stored as 0 or 1 and read with \<^verbatim>\<open>bool\<close>; the rate is stored
  as REAL and read with \<^verbatim>\<open>Decimal(str(...))\<close>: the model keeps the flag and the decimal.
\<close>

record project_row =
  pr_id :: int
  pr_name :: string
  pr_is_billed_hourly :: bool
  pr_hour_rate :: "rat option"

record entry_row =
  er_id :: int
  er_project_id :: int
  er_description :: string
  er_start_time :: datetime
  er_end_time :: "datetime option"

record database =
  projects :: "project_row list"
  work_entries :: "entry_row list"
  projects_seq :: int
  work_entries_seq :: int

text \<open>\<^verbatim>\<open>_init_db\<close> on a new file: both tables empty.\<close>

definition init_db :: database where
  "init_db = \<lparr>projects = [], work_entries = [], projects_seq = 0, work_entries_seq = 0\<rparr>"

text \<open>
  The rowid an AUTOINCREMENT table gives a new row: one more than the largest of its
  counter and the rowids it holds.
\<close>

definition next_rowid :: "int \<Rightarrow> int list \<Rightarrow> int" where
  "next_rowid seq ids = fold max ids seq + 1"

text \<open>
  sqlite3 binds a Python int to a 64-bit INTEGER and raises OverflowError for any other.
\<close>

definition sqlite_int :: "int \<Rightarrow> bool" where
  "sqlite_int n = (- (2 ^ 63) \<le> n \<and> n < 2 ^ 63)"

text \<open>
  The two shapes of \<^verbatim>\<open>sqlite3.Row\<close> that reach \<^verbatim>\<open>_create_project_from_row\<close>: a row
  of \<^verbatim>\<open>SELECT * FROM projects\<close>, with the columns \<^verbatim>\<open>id, name, is_billed_hourly,
  hour_rate\<close>, and a row of the range queries'
  \<^verbatim>\<open>SELECT e.*, p.id as p_id, p.name as p_name, p.is_billed_hourly, p.hour_rate\<close>, with the
  columns \<^verbatim>\<open>id, project_id, description, start_time, end_time, p_id, p_name,
  is_billed_hourly, hour_rate\<close>.
\<close>

datatype sqlite_row = Project_row project_row | Joined_row entry_row project_row

text \<open>
  \<^verbatim>\<open>_create_project_from_row\<close> reads \<^verbatim>\<open>row["id"]\<close> and falls back to
  \<^verbatim>\<open>row["p_id"]\<close> only on IndexError, that is when the row has no column \<^verbatim>\<open>id\<close>;
  likewise \<^verbatim>\<open>row["name"]\<close> and \<^verbatim>\<open>row["p_name"]\<close>. A joined row has a column
  \<^verbatim>\<open>id\<close>, the entry's (from \<^verbatim>\<open>e.*\<close>), so the project built from it carries the
  entry's id; it has no column \<^verbatim>\<open>name\<close>, so the name is the project's.
\<close>

fun create_project_from_row :: "sqlite_row \<Rightarrow> Project" where
  "create_project_from_row (Project_row p) =
     \<lparr>p_id = Some (pr_id p), name = pr_name p,
      is_billed_hourly = pr_is_billed_hourly p, hour_rate = pr_hour_rate p\<rparr>"
| "create_project_from_row (Joined_row e p) =
     \<lparr>p_id = Some (er_id e), name = pr_name p,
      is_billed_hourly = pr_is_billed_hourly p, hour_rate = pr_hour_rate p\<rparr>"

text \<open>
  The \<^verbatim>\<open>WorkEntry(...)\<close> built from a row, the same in \<^verbatim>\<open>get_work_entry\<close>,
  \<^verbatim>\<open>get_active_work_entry\<close> and the two range queries. \<^verbatim>\<open>start_time\<close> is NOT NULL
  and never the empty text, so it is always present.
\<close>

definition work_entry_from_row :: "entry_row \<Rightarrow> WorkEntry" where
  "work_entry_from_row row =
     \<lparr>e_id = Some (er_id row), project_id = er_project_id row,
      description = er_description row, start_time = Some (er_start_time row),
      end_time = er_end_time row\<rparr>"

text \<open>
  \<^verbatim>\<open>create_project\<close>: the INSERT fails on the UNIQUE constraint of \<^verbatim>\<open>name\<close> with
  sqlite3.IntegrityError; the connection's context manager rolls back and the exception
  leaves the method. Otherwise the row gets the next AUTOINCREMENT id.
\<close>

definition create_project :: "database \<Rightarrow> Project \<Rightarrow> database \<times> (error + int)" where
  "create_project db project =
     (if list_ex (\<lambda>r. pr_name r = name project) (projects db) then (db, Inl IntegrityError)
      else
        let lastrowid = next_rowid (projects_seq db) (map pr_id (projects db));
            row = \<lparr>pr_id = lastrowid, pr_name = name project,
                   pr_is_billed_hourly = is_billed_hourly project,
                   pr_hour_rate = hour_rate project\<rparr>
        in (db\<lparr>projects := projects db @ [row], projects_seq := lastrowid\<rparr>, Inr lastrowid))"

definition get_project :: "database \<Rightarrow> int \<Rightarrow> error + Project option" where
  "get_project db project_id' =
     (if \<not> sqlite_int project_id' then Inl OverflowError
      else Inr (map_option (\<lambda>r. create_project_from_row (Project_row r))
                  (find (\<lambda>r. pr_id r = project_id') (projects db))))"

definition get_project_by_name :: "database \<Rightarrow> string \<Rightarrow> Project option" where
  "get_project_by_name db name' =
     map_option (\<lambda>r. create_project_from_row (Project_row r)) (find (\<lambda>r. pr_name r = name') (projects db))"

text \<open>
  \<^verbatim>\<open>create_work_entry\<close>: \<^verbatim>\<open>start_time\<close> is NOT NULL, so an entry without one fails
  the INSERT.
\<close>

definition create_work_entry :: "database \<Rightarrow> WorkEntry \<Rightarrow> database \<times> (error + int)" where
  "create_work_entry db entry =
     (if \<not> sqlite_int (project_id entry) then (db, Inl OverflowError)
      else case start_time entry of
        None \<Rightarrow> (db, Inl IntegrityError)
      | Some st \<Rightarrow>
          let lastrowid = next_rowid (work_entries_seq db) (map er_id (work_entries db));
              row = \<lparr>er_id = lastrowid, er_project_id = project_id entry,
                     er_description = description entry, er_start_time = st,
                     er_end_time = end_time entry\<rparr>
          in (db\<lparr>work_entries := work_entries db @ [row], work_entries_seq := lastrowid\<rparr>,
              Inr lastrowid))"

text \<open>
  \<^verbatim>\<open>get_active_work_entry\<close>: \<^verbatim>\<open>fetchone()\<close> of
  \<^verbatim>\<open>SELECT * FROM work_entries WHERE end_time IS NULL\<close>, the first such row of the scan.
\<close>

definition get_active_work_entry :: "database \<Rightarrow> WorkEntry option" where
  "get_active_work_entry db =
     map_option work_entry_from_row (find (\<lambda>r. er_end_time r = None) (work_entries db))"

text \<open>
  \<^verbatim>\<open>update_work_entry\<close>: every row \<^verbatim>\<open>WHERE id = ?\<close> is replaced; the result is
  \<^verbatim>\<open>rowcount > 0\<close>. An id of \<^verbatim>\<open>None\<close> matches no row. A missing
  \<^verbatim>\<open>start_time\<close> fails the NOT NULL constraint at the first row that matches.
\<close>

definition replace_row :: "int \<Rightarrow> WorkEntry \<Rightarrow> datetime \<Rightarrow> entry_row \<Rightarrow> entry_row" where
  "replace_row i entry st r =
     (if er_id r = i
      then r\<lparr>er_project_id := project_id entry, er_description := description entry,
             er_start_time := st, er_end_time := end_time entry\<rparr>
      else r)"

definition update_work_entry :: "database \<Rightarrow> WorkEntry \<Rightarrow> database \<times> (error + bool)" where
  "update_work_entry db entry =
     (if \<not> sqlite_int (project_id entry) then (db, Inl OverflowError)
      else case e_id entry of
        None \<Rightarrow> (db, Inr False)
      | Some i \<Rightarrow>
          if \<not> sqlite_int i then (db, Inl OverflowError)
          else if \<not> list_ex (\<lambda>r. er_id r = i) (work_entries db) then (db, Inr False)
          else (case start_time entry of
                  None \<Rightarrow> (db, Inl IntegrityError)
                | Some st \<Rightarrow>
                    let rows = map (replace_row i entry st) (work_entries db)
                    in (db\<lparr>work_entries := rows\<rparr>, Inr True)))"

subsection \<open>The range queries\<close>

text \<open>
  SQL's three-valued logic: NULL is \<open>None\<close>. A comparison with NULL is NULL,
  \<^verbatim>\<open>x BETWEEN lo AND hi\<close> is \<^verbatim>\<open>x >= lo AND x <= hi\<close>, and WHERE keeps the rows
  whose condition is true.
\<close>

type_synonym sql_bool = "bool option"

definition sql_and :: "sql_bool \<Rightarrow> sql_bool \<Rightarrow> sql_bool" where
  "sql_and a b =
     (if a = Some False \<or> b = Some False then Some False
      else if a = None \<or> b = None then None
      else Some True)"

definition sql_or :: "sql_bool \<Rightarrow> sql_bool \<Rightarrow> sql_bool" where
  "sql_or a b =
     (if a = Some True \<or> b = Some True then Some True
      else if a = None \<or> b = None then None
      else Some False)"

definition sql_le :: "datetime option \<Rightarrow> datetime option \<Rightarrow> sql_bool" where
  "sql_le a b = (case (a, b) of (Some x, Some y) \<Rightarrow> Some (x \<le> y) | _ \<Rightarrow> None)"

definition sql_lt :: "datetime option \<Rightarrow> datetime option \<Rightarrow> sql_bool" where
  "sql_lt a b = (case (a, b) of (Some x, Some y) \<Rightarrow> Some (x < y) | _ \<Rightarrow> None)"

definition sql_between :: "datetime option \<Rightarrow> datetime option \<Rightarrow> datetime option \<Rightarrow> sql_bool" where
  "sql_between x lo hi = sql_and (sql_le lo x) (sql_le x hi)"

definition sql_is_null :: "datetime option \<Rightarrow> sql_bool" where
  "sql_is_null x = Some (x = None)"

text \<open>
  The WHERE clause of both range queries, with the six parameters bound as the methods
  bind them (start, end, start, end, start, end):
  \<^verbatim>\<open>(e.start_time BETWEEN ? AND ?) OR (e.end_time BETWEEN ? AND ?) OR
  (e.start_time < ? AND (e.end_time > ? OR e.end_time IS NULL))\<close>.
\<close>

definition where_overlap :: "datetime \<Rightarrow> datetime \<Rightarrow> entry_row \<Rightarrow> sql_bool" where
  "where_overlap lo hi e =
     sql_or
       (sql_or (sql_between (Some (er_start_time e)) (Some lo) (Some hi))
               (sql_between (er_end_time e) (Some lo) (Some hi)))
       (sql_and (sql_lt (Some (er_start_time e)) (Some lo))
                (sql_or (sql_lt (Some hi) (er_end_time e)) (sql_is_null (er_end_time e))))"

text \<open>
  \<^verbatim>\<open>FROM work_entries e JOIN projects p ON e.project_id = p.id WHERE ... ORDER BY
  e.start_time\<close>, then the loop that builds a \<^verbatim>\<open>(WorkEntry, Project)\<close> pair from each row.
  The statement and the loop are the same text in \<^verbatim>\<open>get_entries_for_day\<close> and
  \<^verbatim>\<open>get_entries_for_week\<close>. SQL leaves the order of rows with equal \<^verbatim>\<open>start_time\<close>
  open; the model keeps them in scan order.
\<close>

definition select_overlapping :: "database \<Rightarrow> datetime \<Rightarrow> datetime \<Rightarrow> (WorkEntry \<times> Project) list" where
  "select_overlapping db lo hi =
     map (\<lambda>(e, p). (work_entry_from_row e, create_project_from_row (Joined_row e p)))
       (sort_key (\<lambda>(e, p). er_start_time e)
          (concat (map (\<lambda>e. map (\<lambda>p. (e, p)) (filter (\<lambda>p. er_project_id e = pr_id p) (projects db)))
             (filter (\<lambda>e. where_overlap lo hi e = Some True) (work_entries db)))))"

definition get_entries_for_day :: "database \<Rightarrow> date \<Rightarrow> (WorkEntry \<times> Project) list" where
  "get_entries_for_day db day =
     (let start_of_day = combine day time_min;
          end_of_day = combine day time_max
      in select_overlapping db start_of_day end_of_day)"

text \<open>
  The first four statements of \<^verbatim>\<open>get_entries_for_week\<close> (and, for the two dates, of
  \<^verbatim>\<open>_show_week_report\<close>): the Monday on or before the day, the Sunday six days later,
  and the two datetimes that bound the query.
\<close>

definition week_dates :: "date \<Rightarrow> error + date \<times> date" where
  "week_dates date_in_week =
     (case date_add_days date_in_week (- weekday date_in_week) of
        Inl err \<Rightarrow> Inl err
      | Inr start_of_week \<Rightarrow>
          (case date_add_days start_of_week 6 of
             Inl err \<Rightarrow> Inl err
           | Inr end_of_week \<Rightarrow> Inr (start_of_week, end_of_week)))"

definition week_bounds :: "date \<Rightarrow> error + datetime \<times> datetime" where
  "week_bounds date_in_week =
     (case week_dates date_in_week of
        Inl err \<Rightarrow> Inl err
      | Inr (start_of_week, end_of_week) \<Rightarrow>
          Inr (combine start_of_week time_min, combine end_of_week time_max))"

definition get_entries_for_week :: "database \<Rightarrow> date \<Rightarrow> error + (WorkEntry \<times> Project) list" where
  "get_entries_for_week db date_in_week =
     (case week_bounds date_in_week of
        Inl err \<Rightarrow> Inl err
      | Inr (start_datetime, end_datetime) \<Rightarrow>
          Inr (select_overlapping db start_datetime end_datetime))"

section \<open>cli.py: projects and sessions\<close>

text \<open>
  A command prints and returns nothing; the model returns what it printed as a value of
  the command's result type, and the database as the command left it. An exception that
  leaves the command is \<open>Inl\<close>.
\<close>

datatype add_result = Added int | AlreadyExists

text \<open>
  \<^verbatim>\<open>add_project\<close>: \<^verbatim>\<open>if existing\<close> tests an object, which is truthy, so the test is
  presence.
\<close>

definition add_project :: "database \<Rightarrow> string \<Rightarrow> bool \<Rightarrow> rat option \<Rightarrow> database \<times> (error + add_result)" where
  "add_project db name' hourly rate =
     (case get_project_by_name db name' of
        Some existing \<Rightarrow> (db, Inr AlreadyExists)
      | None \<Rightarrow>
          let project = \<lparr>p_id = None, name = name', is_billed_hourly = hourly, hour_rate = rate\<rparr>
          in (case create_project db project of
                (db', Inl err) \<Rightarrow> (db', Inl err)
              | (db', Inr project_id') \<Rightarrow> (db', Inr (Added project_id'))))"

datatype start_result = Started int | Cancelled | ProjectNotFound

datatype stop_result = Stopped rat | NothingToStop

text \<open>
  The block \<^verbatim>\<open># Find the project\<close> of \<^verbatim>\<open>start_work\<close>. \<open>int_of\<close> stands for
  Python's \<^verbatim>\<open>int\<close> on a string: \<open>Some n\<close> when it returns \<open>n\<close>, \<open>None\<close> when it
  raises ValueError. The name is looked up only in the \<^verbatim>\<open>except ValueError\<close> branch.
\<close>

definition find_project :: "(string \<Rightarrow> int option) \<Rightarrow> database \<Rightarrow> string \<Rightarrow> error + Project option" where
  "find_project int_of db project =
     (case int_of project of
        Some project_id' \<Rightarrow> get_project db project_id'
      | None \<Rightarrow> Inr (get_project_by_name db project))"

text \<open>
  \<^verbatim>\<open>start_work\<close> from \<^verbatim>\<open># Find the project\<close> to its end. \<open>now\<close> is the reading of
  \<^verbatim>\<open>datetime.now()\<close>. A project whose \<^verbatim>\<open>id\<close> were \<^verbatim>\<open>None\<close> would fail the NOT NULL
  constraint of \<^verbatim>\<open>project_id\<close>.
\<close>

definition start_new_entry :: "(string \<Rightarrow> int option) \<Rightarrow> database \<Rightarrow> string \<Rightarrow> string \<Rightarrow> datetime
    \<Rightarrow> database \<times> (error + start_result)" where
  "start_new_entry int_of db project description' now =
     (case find_project int_of db project of
        Inl err \<Rightarrow> (db, Inl err)
      | Inr None \<Rightarrow> (db, Inr ProjectNotFound)
      | Inr (Some target_project) \<Rightarrow>
          (case p_id target_project of
             None \<Rightarrow> (db, Inl IntegrityError)
           | Some target_id \<Rightarrow>
               let entry = \<lparr>e_id = None, project_id = target_id, description = description',
                             start_time = Some now, end_time = None\<rparr>
               in (case create_work_entry db entry of
                     (db', Inl err) \<Rightarrow> (db', Inl err)
                   | (db', Inr entry_id) \<Rightarrow> (db', Inr (Started entry_id)))))"

text \<open>
  \<^verbatim>\<open>start_work\<close>. \<open>stop_current\<close> is the answer to \<^verbatim>\<open>Confirm.ask\<close>, read only when
  an entry is active; \<open>now_stop\<close> and \<open>now_start\<close> are the two readings of
  \<^verbatim>\<open>datetime.now()\<close>. The message about the active task reads
  \<^verbatim>\<open>active_entry_project.name\<close>, which raises AttributeError when the project is gone.
\<close>

definition start_work :: "(string \<Rightarrow> int option) \<Rightarrow> database \<Rightarrow> string \<Rightarrow> string \<Rightarrow> bool
    \<Rightarrow> datetime \<Rightarrow> datetime \<Rightarrow> database \<times> (error + start_result)" where
  "start_work int_of db project description' stop_current now_stop now_start =
     (case get_active_work_entry db of
        None \<Rightarrow> start_new_entry int_of db project description' now_start
      | Some active_entry \<Rightarrow>
          (case get_project db (project_id active_entry) of
             Inl err \<Rightarrow> (db, Inl err)
           | Inr None \<Rightarrow> (db, Inl AttributeError)
           | Inr (Some active_entry_project) \<Rightarrow>
               if stop_current
               then (case update_work_entry db (active_entry\<lparr>end_time := Some now_stop\<rparr>) of
                       (db', Inl err) \<Rightarrow> (db', Inl err)
                     | (db', Inr updated) \<Rightarrow>
                         start_new_entry int_of db' project description' now_start)
               else (db, Inr Cancelled)))"

text \<open>
  \<^verbatim>\<open>stop_work\<close>. The entry is written back before the project is read, so the two
  exceptions after the update leave the entry closed.
\<close>

definition stop_work :: "database \<Rightarrow> datetime \<Rightarrow> database \<times> (error + stop_result)" where
  "stop_work db now =
     (case get_active_work_entry db of
        None \<Rightarrow> (db, Inr NothingToStop)
      | Some active_entry \<Rightarrow>
          (case update_work_entry db (active_entry\<lparr>end_time := Some now\<rparr>) of
             (db', Inl err) \<Rightarrow> (db', Inl err)
           | (db', Inr updated) \<Rightarrow>
               (case get_project db' (project_id active_entry) of
                  Inl err \<Rightarrow> (db', Inl err)
                | Inr active_project \<Rightarrow>
                    (case start_time active_entry of
                       None \<Rightarrow> (db', Inl TypeError)
                     | Some st \<Rightarrow>
                         let hours = total_seconds (now - st) / 3600
                         in (case active_project of
                               None \<Rightarrow> (db', Inl AttributeError)
                             | Some p \<Rightarrow> (db', Inr (Stopped hours)))))))"

text \<open>A session: the two commands, each with what it reads from the user and the clock.\<close>

datatype session_op = Start string string bool datetime datetime | Stop datetime

fun session_step :: "(string \<Rightarrow> int option) \<Rightarrow> database \<Rightarrow> session_op \<Rightarrow> database" where
  "session_step int_of db (Start project description' stop_current now_stop now_start) =
     fst (start_work int_of db project description' stop_current now_stop now_start)"
| "session_step int_of db (Stop now) = fst (stop_work db now)"

definition run_session :: "(string \<Rightarrow> int option) \<Rightarrow> database \<Rightarrow> session_op list \<Rightarrow> database" where
  "run_session int_of db ops = foldl (session_step int_of) db ops"

text \<open>The entries of the table with no \<^verbatim>\<open>end_time\<close>.\<close>

definition active_rows :: "database \<Rightarrow> entry_row list" where
  "active_rows db = filter (\<lambda>r. er_end_time r = None) (work_entries db)"

section \<open>cli.py: the reports\<close>

text \<open>
  A Python dict keeps its keys in insertion order: assigning to a key it holds keeps the
  key's place, a new key goes last. It is an association list with that update.
  \<open>dict_get\<close> is the read of a \<^verbatim>\<open>defaultdict\<close>, with the default its factory makes.
\<close>

definition dict_set :: "('k \<times> 'v) list \<Rightarrow> 'k \<Rightarrow> 'v \<Rightarrow> ('k \<times> 'v) list" where
  "dict_set d k v = AList.update k v d"

definition dict_get :: "('k \<times> 'v) list \<Rightarrow> 'k \<Rightarrow> 'v \<Rightarrow> 'v" where
  "dict_get d k dflt = (case map_of d k of None \<Rightarrow> dflt | Some v \<Rightarrow> v)"

text \<open>
  The loop that adds up an entry list, the same in both reports:
  \<^verbatim>\<open>for entry in ...: if entry.duration_hours: subtotal += entry.duration_hours\<close>.
  The test is a truth test: neither \<^verbatim>\<open>None\<close> nor \<^verbatim>\<open>0.0\<close> passes.
\<close>

definition truthy :: "rat option \<Rightarrow> bool" where
  "truthy x = (case x of None \<Rightarrow> False | Some v \<Rightarrow> v \<noteq> 0)"

fun sum_hours :: "rat \<Rightarrow> WorkEntry list \<Rightarrow> rat" where
  "sum_hours subtotal [] = subtotal"
| "sum_hours subtotal (entry # entries) =
     sum_hours (case duration_hours entry of
                  Some h \<Rightarrow> if h \<noteq> 0 then subtotal + h else subtotal
                | None \<Rightarrow> subtotal) entries"

text \<open>
  \<^verbatim>\<open>WorkEntry.__str__\<close>: the description with the hours, or with \<^verbatim>\<open>(in progress)\<close>.
\<close>

datatype entry_label = With_hours string rat | In_progress string

definition str_WorkEntry :: "WorkEntry \<Rightarrow> entry_label" where
  "str_WorkEntry e =
     (case duration_hours e of
        Some h \<Rightarrow> if h \<noteq> 0 then With_hours (description e) h else In_progress (description e)
      | None \<Rightarrow> In_progress (description e))"


subsection \<open>The day report\<close>

text \<open>
  A row of a project's table. \<open>row_start = None\<close> prints \<^verbatim>\<open>N/A\<close>, \<open>row_end = None\<close>
  prints \<^verbatim>\<open>In progress\<close>, \<open>row_hours = None\<close> prints \<^verbatim>\<open>N/A\<close>; a time prints as
  \<^verbatim>\<open>%H:%M\<close> and the hours with two decimals.
\<close>

record report_row =
  row_task :: string
  row_start :: "datetime option"
  row_end :: "datetime option"
  row_hours :: "rat option"



definition day_table_row :: "WorkEntry \<Rightarrow> report_row" where
  "day_table_row entry =
     \<lparr>row_task = description entry, row_start = start_time entry, row_end = end_time entry,
      row_hours = (if truthy (duration_hours entry) then duration_hours entry else None)\<rparr>"


fun group_by_project :: "(int option \<times> Project) list \<times> (int option \<times> WorkEntry list) list
    \<Rightarrow> WorkEntry \<times> Project
    \<Rightarrow> (int option \<times> Project) list \<times> (int option \<times> WorkEntry list) list" where
  "group_by_project (projects_dict, entries_by_project) (entry, project) =
     (dict_set projects_dict (p_id project) project,
      dict_set entries_by_project (p_id project)
        (dict_get entries_by_project (p_id project) [] @ [entry]))"




subsection \<open>The week report\<close>














section \<open>The specification's words\<close>

text \<open>
  The overlap rule: an entry belongs to a period if its start lies within the bounds
  (inclusive), or its end does, or it starts before the period and ends after it or is
  still open.
\<close>

definition spec_overlap :: "datetime \<Rightarrow> datetime \<Rightarrow> datetime \<Rightarrow> datetime option \<Rightarrow> bool" where
  "spec_overlap period_start period_end start_time' end_time' =
     ((period_start \<le> start_time' \<and> start_time' \<le> period_end)
      \<or> (case end_time' of None \<Rightarrow> False | Some t \<Rightarrow> period_start \<le> t \<and> t \<le> period_end)
      \<or> (start_time' < period_start
          \<and> (case end_time' of None \<Rightarrow> True | Some t \<Rightarrow> period_end < t)))"



section \<open>Vocabulary of the statements\<close>

text \<open>
  A stored entry is returned by a query when a pair of the result holds it; it has a
  project when the projects table holds a row with its \<^verbatim>\<open>project_id\<close>.
\<close>

definition returned :: "entry_row \<Rightarrow> (WorkEntry \<times> Project) list \<Rightarrow> bool" where
  "returned e results = (work_entry_from_row e \<in> set (map fst results))"

definition has_project :: "database \<Rightarrow> entry_row \<Rightarrow> bool" where
  "has_project db e = list_ex (\<lambda>p. pr_id p = er_project_id e) (projects db)"








section \<open>Example data\<close>

text \<open>
  Python's \<^verbatim>\<open>int\<close> on a string of ASCII characters (short enough for the interpreter's
  digit limit): white space around, one optional sign, decimal digits, single underscores
  between digits. It is the \<open>int_of\<close> of the examples.
\<close>

definition is_space :: "char \<Rightarrow> bool" where
  "is_space c = (c \<in> set [CHR 0x09, CHR 0x0A, CHR 0x0B, CHR 0x0C, CHR 0x0D,
                           CHR 0x1C, CHR 0x1D, CHR 0x1E, CHR 0x1F, CHR 0x20])"

definition digit_of :: "char \<Rightarrow> int option" where
  "digit_of c =
     (let n = (of_char c :: nat) in if 48 \<le> n \<and> n \<le> 57 then Some (int n - 48) else None)"

fun digits_of :: "int \<Rightarrow> string \<Rightarrow> int option" where
  "digits_of acc [] = None"
| "digits_of acc [c] = map_option (\<lambda>d. acc * 10 + d) (digit_of c)"
| "digits_of acc (c # c' # cs) =
     (case digit_of c of
        None \<Rightarrow> None
      | Some d \<Rightarrow>
          if c' = CHR ''_'' then digits_of (acc * 10 + d) cs
          else digits_of (acc * 10 + d) (c' # cs))"

definition py_int :: "string \<Rightarrow> int option" where
  "py_int s =
     (case dropWhile is_space (rev (dropWhile is_space (rev s))) of
        [] \<Rightarrow> None
      | c # cs \<Rightarrow>
          if c = CHR ''-'' then map_option uminus (digits_of 0 cs)
          else if c = CHR ''+'' then digits_of 0 cs
          else digits_of 0 (c # cs))"

text \<open>
  2023-05-01, a Monday, is ordinal 738641. \<open>moment d h m\<close> is the datetime of day \<open>d\<close> at
  \<open>h:m\<close>.
\<close>

definition moment :: "date \<Rightarrow> int \<Rightarrow> int \<Rightarrow> datetime" where
  "moment d h m = combine d ((h * 60 + m) * 60000000)"

definition project_a :: project_row where
  "project_a = \<lparr>pr_id = 1, pr_name = ''Project A'', pr_is_billed_hourly = True,
                 pr_hour_rate = Some 100\<rparr>"

definition project_42 :: project_row where
  "project_42 = \<lparr>pr_id = 2, pr_name = ''42'', pr_is_billed_hourly = True,
                  pr_hour_rate = Some 0\<rparr>"

definition project_c :: project_row where
  "project_c = \<lparr>pr_id = 3, pr_name = ''Project C'', pr_is_billed_hourly = True,
                 pr_hour_rate = Some (151 / 2)\<rparr>"

text \<open>
  A morning task, a task across the midnight before the Monday, a task stopped at the
  instant it was started, and an open task.
\<close>

definition morning :: entry_row where
  "morning = \<lparr>er_id = 1, er_project_id = 1, er_description = ''Task 1'',
               er_start_time = moment 738641 9 0, er_end_time = Some (moment 738641 11 0)\<rparr>"

definition overnight :: entry_row where
  "overnight = \<lparr>er_id = 2, er_project_id = 1, er_description = ''Night shift'',
                 er_start_time = moment 738640 23 0, er_end_time = Some (moment 738641 1 0)\<rparr>"

definition pause :: entry_row where
  "pause = \<lparr>er_id = 3, er_project_id = 3, er_description = ''Pause'',
             er_start_time = moment 738642 10 0, er_end_time = Some (moment 738642 10 0)\<rparr>"

definition open_task :: entry_row where
  "open_task = \<lparr>er_id = 4, er_project_id = 2, er_description = ''Open task'',
                 er_start_time = moment 738641 13 30, er_end_time = None\<rparr>"

text \<open>An entry whose project was deleted.\<close>

definition orphan :: entry_row where
  "orphan = \<lparr>er_id = 1, er_project_id = 7, er_description = ''Orphan'',
              er_start_time = moment 738641 10 0, er_end_time = Some (moment 738641 12 0)\<rparr>"

definition db_closed :: database where
  "db_closed = \<lparr>projects = [project_a, project_42, project_c],
                 work_entries = [morning, overnight, pause],
                 projects_seq = 3, work_entries_seq = 3\<rparr>"

definition db_open :: database where
  "db_open = \<lparr>projects = [project_a, project_42, project_c],
               work_entries = [morning, overnight, pause, open_task],
               projects_seq = 3, work_entries_seq = 4\<rparr>"

definition db_orphan :: database where
  "db_orphan = \<lparr>projects = [project_a], work_entries = [orphan],
                 projects_seq = 7, work_entries_seq = 1\<rparr>"

text \<open>The entry object of the task stopped at the instant it was started.\<close>

definition zero_length :: WorkEntry where
  "zero_length = work_entry_from_row pause"



section \<open>Properties\<close>

subsection \<open>The range queries\<close>

lemma where_overlap_iff:
  "(where_overlap lo hi e = Some True) = spec_overlap lo hi (er_start_time e) (er_end_time e)"
  by (cases "er_end_time e")
     (auto simp: where_overlap_def spec_overlap_def sql_or_def sql_and_def sql_between_def
                 sql_le_def sql_lt_def sql_is_null_def)

lemma work_entry_from_row_inj:
  "work_entry_from_row a = work_entry_from_row b \<Longrightarrow> a = b"
  by (cases a, cases b) (simp add: work_entry_from_row_def)

lemma returned_select:
  assumes "e \<in> set (work_entries db)"
  shows "returned e (select_overlapping db lo hi) =
           (has_project db e \<and> spec_overlap lo hi (er_start_time e) (er_end_time e))"
proof -
  have "returned e (select_overlapping db lo hi) =
          (\<exists>e' \<in> set (work_entries db). \<exists>p \<in> set (projects db).
              where_overlap lo hi e' = Some True \<and> er_project_id e' = pr_id p
              \<and> work_entry_from_row e' = work_entry_from_row e)"
    unfolding returned_def select_overlapping_def
    by (force simp: image_iff)
  also have "\<dots> = (has_project db e \<and> where_overlap lo hi e = Some True)"
  proof
    assume "\<exists>e' \<in> set (work_entries db). \<exists>p \<in> set (projects db).
              where_overlap lo hi e' = Some True \<and> er_project_id e' = pr_id p
              \<and> work_entry_from_row e' = work_entry_from_row e"
    then obtain e' p where h: "p \<in> set (projects db)" "where_overlap lo hi e' = Some True"
        "er_project_id e' = pr_id p" "work_entry_from_row e' = work_entry_from_row e"
      by blast
    from h(4) have "e' = e" by (rule work_entry_from_row_inj)
    with h show "has_project db e \<and> where_overlap lo hi e = Some True"
      by (auto simp: has_project_def list_ex_iff)
  next
    assume a: "has_project db e \<and> where_overlap lo hi e = Some True"
    then obtain p where p: "p \<in> set (projects db)" "pr_id p = er_project_id e"
      by (auto simp: has_project_def list_ex_iff)
    from a p assms show "\<exists>e' \<in> set (work_entries db). \<exists>p \<in> set (projects db).
              where_overlap lo hi e' = Some True \<and> er_project_id e' = pr_id p
              \<and> work_entry_from_row e' = work_entry_from_row e"
      by (intro bexI[of _ e] bexI[of _ p]) simp_all
  qed
  finally show ?thesis by (simp add: where_overlap_iff)
qed

text \<open>
  In every pair a range query returns, the project carries the id of the entry: the
  reports, which group by \<^verbatim>\<open>project.id\<close>, keep each returned entry under a key of its
  own.
\<close>

lemma select_overlapping_project_id:
  "(w, p) \<in> set (select_overlapping db lo hi) \<Longrightarrow> p_id p = e_id w"
  by (auto simp: select_overlapping_def work_entry_from_row_def)

text \<open>
  C1, as amended. A stored entry is returned by the day query, and by the week query
  whenever that query returns, if and only if its project exists (the query joins the
  projects table) and the entry overlaps the period by rule (a), (b) or (c).
\<close>

theorem range_query_membership:
  assumes "e \<in> set (work_entries db)"
  shows "returned e (get_entries_for_day db day) =
           (has_project db e \<and>
            spec_overlap (combine day time_min) (combine day time_max)
              (er_start_time e) (er_end_time e))
         \<and> (case week_bounds day of
              Inl err \<Rightarrow> get_entries_for_week db day = Inl err
            | Inr (week_start, week_end) \<Rightarrow>
                (\<exists>results. get_entries_for_week db day = Inr results \<and>
                   returned e results =
                     (has_project db e \<and>
                      spec_overlap week_start week_end (er_start_time e) (er_end_time e))))"
  using returned_select[OF assms]
  by (auto simp: get_entries_for_day_def get_entries_for_week_def split: sum.splits)

lemmas example_defs =
  db_open_def db_closed_def db_orphan_def project_a_def project_42_def project_c_def
  morning_def overnight_def pause_def open_task_def orphan_def moment_def combine_def
  us_per_day_def time_min_def time_max_def

theorem range_query_membership_witness:
  "overnight \<in> set (work_entries db_open)
   \<and> returned overnight (get_entries_for_day db_open 738641)
   \<and> returned overnight (get_entries_for_day db_open 738640)
   \<and> \<not> returned morning (get_entries_for_day db_open 738640)
   \<and> (\<exists>results. get_entries_for_week db_open 738643 = Inr results \<and> returned morning results)"
proof -
  have o: "overnight \<in> set (work_entries db_open)" and m: "morning \<in> set (work_entries db_open)"
    by (simp_all add: db_open_def)
  have wb: "week_bounds 738643 = Inr (combine 738641 time_min, combine 738647 time_max)"
    by (simp add: week_bounds_def week_dates_def date_add_days_def weekday_def min_ordinal_def
                  max_ordinal_def)
  show ?thesis
    using o range_query_membership[OF o, of 738641] range_query_membership[OF o, of 738640]
      range_query_membership[OF m, of 738640] range_query_membership[OF m, of 738643]
    by (simp add: wb has_project_def spec_overlap_def example_defs)
qed

text \<open>
  C1 as stated fails for an entry whose project is gone: the orphan lies within
  2023-05-01 by rule (a), and the day query does not return it.
\<close>

theorem range_query_orphan_counterexample:
  "orphan \<in> set (work_entries db_orphan)
   \<and> spec_overlap (combine 738641 time_min) (combine 738641 time_max)
       (er_start_time orphan) (er_end_time orphan)
   \<and> \<not> returned orphan (get_entries_for_day db_orphan 738641)"
  by (simp add: returned_def get_entries_for_day_def select_overlapping_def spec_overlap_def
                example_defs)

subsection \<open>The week\<close>









subsection \<open>Projects\<close>

text \<open>
  C9. When a project of the same name is stored, \<^verbatim>\<open>create_project\<close> fails with the
  UNIQUE constraint's IntegrityError and \<^verbatim>\<open>add_project\<close> reports that the project
  exists; both leave the database as it was.
\<close>

theorem duplicate_project_name_rejected:
  assumes "r \<in> set (projects db)" "pr_name r = name project"
  shows "create_project db project = (db, Inl IntegrityError)
         \<and> add_project db (name project) hourly rate = (db, Inr AlreadyExists)"
proof -
  from assms have "find (\<lambda>r. pr_name r = name project) (projects db) \<noteq> None"
    by (auto simp: find_None_iff)
  then have "add_project db (name project) hourly rate = (db, Inr AlreadyExists)"
    by (auto simp: add_project_def get_project_by_name_def)
  moreover from assms have "create_project db project = (db, Inl IntegrityError)"
    by (auto simp: create_project_def list_ex_iff)
  ultimately show ?thesis by simp
qed

theorem duplicate_project_name_rejected_witness:
  "project_a \<in> set (projects db_open)
   \<and> create_project db_open
        \<lparr>p_id = None, name = ''Project A'', is_billed_hourly = False, hour_rate = None\<rparr>
       = (db_open, Inl IntegrityError)
   \<and> add_project db_open ''Project A'' False None = (db_open, Inr AlreadyExists)"
proof -
  have m: "project_a \<in> set (projects db_open)"
    by (simp add: db_open_def)
  have n: "pr_name project_a =
      name \<lparr>p_id = None, name = ''Project A'', is_billed_hourly = False, hour_rate = None\<rparr>"
    by (simp add: project_a_def)
  show ?thesis
    using m duplicate_project_name_rejected[OF m n, of False None] by simp
qed

subsection \<open>Sessions\<close>

text \<open>
  C7. With no open entry in the table, \<^verbatim>\<open>stop_work\<close> reports that there is nothing to
  stop, raises nothing, and returns the database as it was.
\<close>

theorem stop_work_idle:
  assumes "active_rows db = []"
  shows "stop_work db now = (db, Inr NothingToStop)"
proof -
  from assms have "get_active_work_entry db = None"
    by (auto simp: get_active_work_entry_def active_rows_def find_None_iff filter_empty_conv)
  then show ?thesis by (simp add: stop_work_def)
qed

theorem stop_work_idle_witness:
  "active_rows db_closed = []
   \<and> stop_work db_closed (moment 738641 15 0) = (db_closed, Inr NothingToStop)"
proof -
  have a: "active_rows db_closed = []"
    by (simp add: active_rows_def db_closed_def morning_def overnight_def pause_def)
  show ?thesis
    using a stop_work_idle[OF a] by simp
qed

lemma filter_le1_find:
  assumes "length (filter P xs) \<le> 1" "find P xs = Some r" "x \<in> set xs" "P x"
  shows "x = r"
proof -
  have r: "r \<in> set (filter P xs)"
    using assms(2) by (auto simp: find_Some_iff)
  have x: "x \<in> set (filter P xs)"
    using assms(3,4) by simp
  obtain y where "filter P xs = [y]"
    using assms(1) r by (cases "filter P xs") (auto simp del: set_filter)
  with r x show ?thesis by (simp del: set_filter)
qed

lemma update_closes:
  assumes le1: "length (active_rows db) \<le> 1"
    and fnd: "find (\<lambda>r. er_end_time r = None) (work_entries db) = Some r"
    and upd: "update_work_entry db ((work_entry_from_row r)\<lparr>end_time := Some t\<rparr>) = (db', res)"
  shows "(\<exists>err. res = Inl err \<and> db' = db) \<or> (\<exists>b. res = Inr b \<and> active_rows db' = [])"
proof -
  have rin: "r \<in> set (work_entries db)" using fnd by (auto simp: find_Some_iff in_set_conv_nth)
  have only: "\<And>x. x \<in> set (work_entries db) \<Longrightarrow> er_end_time x = None \<Longrightarrow> x = r"
    using filter_le1_find[OF le1[unfolded active_rows_def] fnd] by blast
  have ex: "list_ex (\<lambda>x. er_id x = er_id r) (work_entries db)"
    using rin by (auto simp: list_ex_iff)
  show ?thesis
  proof (cases "sqlite_int (er_project_id r) \<and> sqlite_int (er_id r)")
    case False
    then show ?thesis using upd
      by (auto simp: update_work_entry_def work_entry_from_row_def split: if_splits)
  next
    case True
    then have db': "db' = db\<lparr>work_entries := map (replace_row (er_id r) ((work_entry_from_row r)\<lparr>end_time := Some t\<rparr>) (er_start_time r)) (work_entries db)\<rparr>"
      and res: "res = Inr True"
      using upd ex by (auto simp: update_work_entry_def work_entry_from_row_def Let_def)
    have "active_rows db' = []"
      unfolding db' active_rows_def
      using only by (auto simp: filter_empty_conv replace_row_def)
    with res show ?thesis by blast
  qed
qed

lemma start_new_entry_active:
  assumes "start_new_entry int_of db project d now = (db', res)"
  shows "length (active_rows db') \<le> Suc (length (active_rows db))"
  using assms
  by (auto simp: start_new_entry_def create_work_entry_def active_rows_def Let_def
           split: sum.splits option.splits if_splits)

lemma start_work_single_active:
  assumes "length (active_rows db) \<le> 1"
  shows "length (active_rows (fst (start_work int_of db project d sc t1 t2))) \<le> 1"
proof (cases "find (\<lambda>r. er_end_time r = None) (work_entries db)")
  case None
  then have "active_rows db = []"
    by (auto simp: active_rows_def find_None_iff filter_empty_conv)
  moreover from None have "start_work int_of db project d sc t1 t2 = start_new_entry int_of db project d t2"
    by (simp add: start_work_def get_active_work_entry_def)
  ultimately show ?thesis
    using start_new_entry_active[of int_of db project d t2] by (metis One_nat_def list.size(3) prod.collapse)
next
  case (Some r)
  obtain db1 res1 where u: "update_work_entry db ((work_entry_from_row r)\<lparr>end_time := Some t1\<rparr>) = (db1, res1)"
    by (cases "update_work_entry db ((work_entry_from_row r)\<lparr>end_time := Some t1\<rparr>)")
  from update_closes[OF assms Some u]
  consider (err) err where "res1 = Inl err" "db1 = db" | (ok) b where "res1 = Inr b" "active_rows db1 = []"
    by blast
  then show ?thesis
  proof cases
    case err
    then show ?thesis using assms Some u
      by (auto simp: start_work_def get_active_work_entry_def split: sum.splits option.splits)
  next
    case ok
    have "length (active_rows (fst (start_new_entry int_of db1 project d t2))) \<le> 1"
      using start_new_entry_active[of int_of db1 project d t2] ok(2)
      by (metis One_nat_def list.size(3) prod.collapse)
    then show ?thesis using assms Some u ok
      by (auto simp: start_work_def get_active_work_entry_def split: sum.splits option.splits)
  qed
qed

lemma stop_work_single_active:
  assumes "length (active_rows db) \<le> 1"
  shows "length (active_rows (fst (stop_work db t))) \<le> 1"
proof (cases "find (\<lambda>r. er_end_time r = None) (work_entries db)")
  case None
  then show ?thesis using assms by (simp add: stop_work_def get_active_work_entry_def)
next
  case (Some r)
  obtain db1 res1 where u: "update_work_entry db ((work_entry_from_row r)\<lparr>end_time := Some t\<rparr>) = (db1, res1)"
    by (cases "update_work_entry db ((work_entry_from_row r)\<lparr>end_time := Some t\<rparr>)")
  from update_closes[OF assms Some u]
  have "length (active_rows db1) \<le> 1" using assms by auto
  then show ?thesis using Some u
    by (auto simp: stop_work_def get_active_work_entry_def Let_def split: sum.splits option.splits)
qed

lemma session_step_single_active:
  "length (active_rows db) \<le> 1 \<Longrightarrow> length (active_rows (session_step int_of db op)) \<le> 1"
  using start_work_single_active stop_work_single_active by (cases op) auto

text \<open>
  C2. From a database with at most one open entry (a new one has none), every sequence of
  \<^verbatim>\<open>start\<close> and \<^verbatim>\<open>stop\<close> commands, whatever the user answers, the clock reads and
  \<^verbatim>\<open>int\<close> parses, and whether a command ends with a message or an exception, leaves at
  most one open entry.
\<close>

theorem session_single_active:
  assumes "length (active_rows db) \<le> 1"
  shows "length (active_rows (run_session int_of db ops)) \<le> 1"
  using assms unfolding run_session_def
proof (induction ops arbitrary: db)
  case Nil
  then show ?case by simp
next
  case (Cons a ops)
  from session_step_single_active[OF Cons.prems]
  have "length (active_rows (session_step int_of db a)) \<le> 1" .
  from Cons.IH[OF this] show ?case by simp
qed

theorem session_single_active_witness:
  "length (active_rows db_open) \<le> 1
   \<and> length (active_rows (run_session py_int db_open
        [Start ''Project A'' ''Review'' True (moment 738641 14 0) (moment 738641 14 0),
         Start ''42'' ''Other'' False (moment 738641 15 0) (moment 738641 15 0),
         Stop (moment 738641 16 0),
         Stop (moment 738641 17 0),
         Start ''1'' ''Again'' True (moment 738641 18 0) (moment 738641 18 0)])) \<le> 1
   \<and> map er_id (active_rows (run_session py_int db_open
        [Start ''Project A'' ''Review'' True (moment 738641 14 0) (moment 738641 14 0),
         Start ''42'' ''Other'' False (moment 738641 15 0) (moment 738641 15 0),
         Stop (moment 738641 16 0),
         Stop (moment 738641 17 0),
         Start ''1'' ''Again'' True (moment 738641 18 0) (moment 738641 18 0)])) = [6]"
proof -
  have a: "length (active_rows db_open) \<le> 1"
    by (simp add: active_rows_def db_open_def morning_def overnight_def pause_def open_task_def)
  have r: "map er_id (active_rows (run_session py_int db_open
        [Start ''Project A'' ''Review'' True (moment 738641 14 0) (moment 738641 14 0),
         Start ''42'' ''Other'' False (moment 738641 15 0) (moment 738641 15 0),
         Stop (moment 738641 16 0),
         Stop (moment 738641 17 0),
         Start ''1'' ''Again'' True (moment 738641 18 0) (moment 738641 18 0)])) = [6]"
    by code_simp
  show ?thesis
    using a r session_single_active[OF a] by simp
qed













subsection \<open>Durations\<close>




lemma sum_hours_append:
  "sum_hours subtotal (xs @ ys) = sum_hours (sum_hours subtotal xs) ys"
  by (induction xs arbitrary: subtotal) simp_all

text \<open>
  C10. An entry whose end equals its start has no \<^verbatim>\<open>duration_hours\<close>, as the same
  entry without an end has none: both are labelled in progress by \<^verbatim>\<open>__str__\<close>, both
  get the \<^verbatim>\<open>N/A\<close> hours cell in the day report, and both leave the sum of any entry list
  of a report as it is without them.
\<close>

theorem zero_duration_like_active:
  assumes "start_time e = Some t" "end_time e = Some t"
  shows "duration_hours e = None \<and> duration_hours (e\<lparr>end_time := None\<rparr>) = None
         \<and> str_WorkEntry e = In_progress (description e)
         \<and> str_WorkEntry (e\<lparr>end_time := None\<rparr>) = In_progress (description e)
         \<and> row_hours (day_table_row e) = None
         \<and> row_hours (day_table_row (e\<lparr>end_time := None\<rparr>)) = None
         \<and> sum_hours subtotal (xs @ e # ys) = sum_hours subtotal (xs @ ys)
         \<and> sum_hours subtotal (xs @ e\<lparr>end_time := None\<rparr> # ys) = sum_hours subtotal (xs @ ys)"
proof -
  have z: "duration_hours e = None"
    using assms by (simp add: duration_hours_def duration_def)
  have a: "duration_hours (e\<lparr>end_time := None\<rparr>) = None"
    using assms by (simp add: duration_hours_def duration_def)
  show ?thesis
    by (simp add: z a str_WorkEntry_def day_table_row_def truthy_def sum_hours_append)
qed

theorem zero_duration_like_active_witness:
  "start_time zero_length = Some (moment 738642 10 0)
   \<and> end_time zero_length = Some (moment 738642 10 0)
   \<and> duration_hours zero_length = None
   \<and> str_WorkEntry zero_length = In_progress ''Pause''
   \<and> row_hours (day_table_row zero_length) = None
   \<and> sum_hours 0 [work_entry_from_row morning, zero_length] = 2"
proof -
  have s: "start_time zero_length = Some (moment 738642 10 0)"
    and t: "end_time zero_length = Some (moment 738642 10 0)"
    and d: "description zero_length = ''Pause''"
    by (simp_all add: zero_length_def work_entry_from_row_def pause_def)
  have m: "sum_hours 0 [work_entry_from_row morning] = 2"
    by (simp add: work_entry_from_row_def morning_def duration_hours_def duration_def
                  total_seconds_def moment_def combine_def us_per_day_def)
  from zero_duration_like_active[OF s t, of 0 "[work_entry_from_row morning]" "[]"] s t d m
  show ?thesis by simp
qed


subsection \<open>The structure of the reports\<close>





subsection \<open>The week table\<close>



lemma dict_set_keys:
  "map fst (dict_set d k v) = (if k \<in> set (map fst d) then map fst d else map fst d @ [k])"
  by (simp add: dict_set_def update_keys)

























subsection \<open>Billing\<close>





lemma group_by_project_keys:
  "foldl group_by_project (pd0, ebp0) entries = (pd, ebp) \<Longrightarrow> map fst pd0 = map fst ebp0 \<Longrightarrow>
     map fst pd = map fst ebp"
proof (induction entries arbitrary: pd0 ebp0)
  case Nil
  then show ?case by simp
next
  case (Cons a entries)
  obtain e p where a: "a = (e, p)" by (cases a)
  show ?case
    using Cons.prems by (auto simp: a dict_set_keys intro!: Cons.IH)
qed












end
